theory Spec2Isabelle
  imports Complex_Main
begin

section \<open>Numbers and vectors\<close>

text \<open>
  The program is \<^verbatim>\<open>src/main.js\<close>, a browser script over the three.js rendering library.
  JavaScript numbers are idealised as real numbers: every sum and product below is the exact
  one, not the rounded double. A division is the one place where the script can leave the
  finite numbers (a viewport of width or height 0), so a quotient is a \<open>jsnum\<close>.
\<close>

datatype jsnum = Finite real | NonFinite

definition js_div :: "real \<Rightarrow> real \<Rightarrow> jsnum" where
  "js_div a b = (if b = 0 then NonFinite else Finite (a / b))"

fun js_affine :: "real \<Rightarrow> real \<Rightarrow> jsnum \<Rightarrow> jsnum" where
  "js_affine a b (Finite q) = Finite (a * q + b)"
| "js_affine a b NonFinite = NonFinite"

datatype Vector3 = Vector3 (vx: real) (vy: real) (vz: real)

definition vadd :: "Vector3 \<Rightarrow> Vector3 \<Rightarrow> Vector3" where
  "vadd a b = Vector3 (vx a + vx b) (vy a + vy b) (vz a + vz b)"

text \<open>\<^verbatim>\<open>THREE.MathUtils.lerp(x, y, t)\<close> of the library is \<^verbatim>\<open>(1 - t) * x + t * y\<close>.\<close>

definition lerp :: "real \<Rightarrow> real \<Rightarrow> real \<Rightarrow> real" where
  "lerp x y t = (1 - t) * x + t * y"

section \<open>The scene graph\<close>

text \<open>
  Objects of the scene graph live in a store indexed by the order of their creation; a
  reference to an object is its index. Of an object's transform the script only ever writes
  \<^verbatim>\<open>position.x\<close> and \<^verbatim>\<open>rotation.y\<close>; scale stays 1 and the other angles stay 0.
  \<open>userData\<close> is the \<^verbatim>\<open>name\<close> that \<^verbatim>\<open>createPlanet\<close> stores there.

  The fields \<^verbatim>\<open>size\<close>, \<^verbatim>\<open>dist\<close>, \<^verbatim>\<open>speed\<close> of a moon's configuration are \<open>cfg_size\<close>,
  \<open>cfg_dist\<close>, \<open>cfg_speed\<close> here, and the fields \<^verbatim>\<open>group\<close>, \<^verbatim>\<open>speed\<close> of a moon's entry
  are \<open>m_group\<close>, \<open>m_speed\<close>, since the planet's entry has a \<^verbatim>\<open>speed\<close> of its own.
\<close>

datatype kind = Scene | Group | Mesh | Points | Light

record Object3D =
  kind :: kind
  parent :: "nat option"
  children :: "nat list"
  position :: Vector3
  rotation_y :: real
  userData :: "string option"

type_synonym store = "nat \<Rightarrow> Object3D"

definition new_Object3D :: "kind \<Rightarrow> Object3D" where
  "new_Object3D k = \<lparr>kind = k, parent = None, children = [], position = Vector3 0 0 0,
     rotation_y = 0, userData = None\<rparr>"

record moonConfig =
  cfg_size :: real
  cfg_dist :: real
  cfg_speed :: real

record moonObj =
  m_group :: nat
  m_speed :: real

record planetObj =
  orbitGroup :: nat
  speed :: real
  planet :: nat
  moons :: "moonObj list"

record State =
  nodes :: store
  count :: nat
  planets :: "planetObj list"
  focusedPlanet :: "nat option"
  timeScale :: real
  backButton :: "string option"
  camera_position :: Vector3
  camera_aspect :: jsnum
  controls_target :: Vector3
  mouse :: "jsnum \<times> jsnum"
  renderer_size :: "nat \<times> nat"
  renderer_pixelRatio :: real
  canvas_size :: "int \<times> int"
  composer_size :: "nat \<times> nat"
  composer_pixelRatio :: real
  composer_buffer :: "real \<times> real"
  starMaterial_size :: real
  starDust :: nat
  innerWidth :: nat
  innerHeight :: nat

text \<open>\<^verbatim>\<open>new THREE.X(...)\<close>: the next free index holds a fresh object without a parent.\<close>

definition create :: "kind \<Rightarrow> State \<Rightarrow> nat \<times> State" where
  "create k st = (count st, st\<lparr>nodes := (nodes st)(count st := new_Object3D k), count := count st + 1\<rparr>)"

text \<open>
  \<^verbatim>\<open>parent.add(child)\<close> of the library: an object is not added to itself; otherwise the
  child leaves its former parent, if it has one, gets the new parent and is pushed onto the
  end of the parent's children.
\<close>

definition removeFromParent :: "nat \<Rightarrow> store \<Rightarrow> store" where
  "removeFromParent c s = (case parent (s c) of None \<Rightarrow> s
     | Some q \<Rightarrow> (let s1 = s(q := (s q)\<lparr>children := remove1 c (children (s q))\<rparr>)
                 in s1(c := (s1 c)\<lparr>parent := None\<rparr>)))"

definition add :: "nat \<Rightarrow> nat \<Rightarrow> store \<Rightarrow> store" where
  "add p c s = (if p = c then s
     else (let s1 = removeFromParent c s;
               s2 = s1(c := (s1 c)\<lparr>parent := Some p\<rparr>)
           in s2(p := (s2 p)\<lparr>children := children (s2 p) @ [c]\<rparr>)))"

definition add_to :: "nat \<Rightarrow> nat \<Rightarrow> State \<Rightarrow> State" where
  "add_to p c st = st\<lparr>nodes := add p c (nodes st)\<rparr>"

definition set_position_x :: "nat \<Rightarrow> real \<Rightarrow> State \<Rightarrow> State" where
  "set_position_x n d st = st\<lparr>nodes := (nodes st)(n := (nodes st n)
     \<lparr>position := Vector3 d (vy (position (nodes st n))) (vz (position (nodes st n)))\<rparr>)\<rparr>"

definition scene :: nat where "scene = 0"

text \<open>
  The renderer and the composer of the library keep two sizes each. \<^verbatim>\<open>renderer.setSize(w, h)\<close>
  stores the logical size and gives the canvas a drawing surface of
  \<^verbatim>\<open>Math.floor(w * pixelRatio)\<close> by \<^verbatim>\<open>Math.floor(h * pixelRatio)\<close>;
  \<^verbatim>\<open>renderer.setPixelRatio(v)\<close> stores the ratio and sets the size again. The constructor
  of the composer takes the pixel ratio and the logical size from the renderer, and
  \<^verbatim>\<open>composer.setSize(w, h)\<close> stores the logical size and sizes the buffers of the pipeline to
  \<^verbatim>\<open>w * pixelRatio\<close> by \<^verbatim>\<open>h * pixelRatio\<close>, with the ratio the composer took over.
\<close>

definition renderer_setSize :: "nat \<Rightarrow> nat \<Rightarrow> State \<Rightarrow> State" where
  "renderer_setSize w h st = st\<lparr>renderer_size := (w, h),
     canvas_size := (\<lfloor>real w * renderer_pixelRatio st\<rfloor>, \<lfloor>real h * renderer_pixelRatio st\<rfloor>)\<rparr>"

definition renderer_setPixelRatio :: "real \<Rightarrow> State \<Rightarrow> State" where
  "renderer_setPixelRatio v st =
     renderer_setSize (fst (renderer_size st)) (snd (renderer_size st)) (st\<lparr>renderer_pixelRatio := v\<rparr>)"

definition composer_setSize :: "nat \<Rightarrow> nat \<Rightarrow> State \<Rightarrow> State" where
  "composer_setSize w h st = st\<lparr>composer_size := (w, h),
     composer_buffer := (real w * composer_pixelRatio st, real h * composer_pixelRatio st)\<rparr>"

definition new_EffectComposer :: "State \<Rightarrow> State" where
  "new_EffectComposer st =
     composer_setSize (fst (renderer_size st)) (snd (renderer_size st))
       (st\<lparr>composer_pixelRatio := renderer_pixelRatio st\<rparr>)"

text \<open>The body of \<^verbatim>\<open>moonConfigs.map(m => ...)\<close> in \<^verbatim>\<open>createPlanet\<close>, for one moon.\<close>

definition createMoon :: "nat \<Rightarrow> moonConfig \<Rightarrow> State \<Rightarrow> moonObj \<times> State" where
  "createMoon pl m st =
     (let (moonOrbit, st1) = create Group st;
          st2 = add_to pl moonOrbit st1;
          (moon, st3) = create Mesh st2;
          st4 = set_position_x moon (cfg_dist m) st3;
          st5 = add_to moonOrbit moon st4
      in (\<lparr>m_group = moonOrbit, m_speed = cfg_speed m\<rparr>, st5))"

fun createMoons :: "nat \<Rightarrow> moonConfig list \<Rightarrow> State \<Rightarrow> moonObj list \<times> State" where
  "createMoons pl [] st = ([], st)"
| "createMoons pl (m # ms) st =
     (let (mo, st1) = createMoon pl m st; (mos, st2) = createMoons pl ms st1 in (mo # mos, st2))"

text \<open>
  \<^verbatim>\<open>createPlanet(size, color, distance, speed, name, moonConfigs)\<close>. The size and the colour
  go into the geometry and the material, which the renderer and the ray cast of the library
  read.
\<close>

definition createPlanet ::
  "real \<Rightarrow> nat \<Rightarrow> real \<Rightarrow> real \<Rightarrow> string \<Rightarrow> moonConfig list \<Rightarrow> State \<Rightarrow> planetObj \<times> State" where
  "createPlanet size' color distance spd name moonConfigs st =
     (let (og, st1) = create Group st;
          st2 = add_to scene og st1;
          (pl, st3) = create Mesh st2;
          st4 = set_position_x pl distance st3;
          st5 = st4\<lparr>nodes := (nodes st4)(pl := (nodes st4 pl)\<lparr>userData := Some name\<rparr>)\<rparr>;
          st6 = add_to og pl st5;
          (ms, st7) = createMoons pl moonConfigs st6;
          planetObj = \<lparr>orbitGroup = og, speed = spd, planet = pl, moons = ms\<rparr>
      in (planetObj, st7\<lparr>planets := planets st7 @ [planetObj]\<rparr>))"

section \<open>The start-up script\<close>

text \<open>
  The state before the first object is created. \<open>W\<close> and \<open>H\<close> are the viewport's width and
  height when the page loads; \<open>bb\<close> is what \<^verbatim>\<open>document.getElementById('backButton')\<close>
  returns: \<open>None\<close> for \<^verbatim>\<open>null\<close>, otherwise the element with its \<^verbatim>\<open>style.display\<close>.
  A new renderer has the pixel ratio 1 and the size of a new canvas, 300 by 150; the fields
  of the composer mean nothing before the script creates it.
\<close>

definition start :: "nat \<Rightarrow> nat \<Rightarrow> string option \<Rightarrow> State" where
  "start W H bb = \<lparr>nodes = (\<lambda>_. new_Object3D Group), count = 0, planets = [],
     focusedPlanet = None, timeScale = 1.0, backButton = bb,
     camera_position = Vector3 25 20 40, camera_aspect = js_div (real W) (real H),
     controls_target = Vector3 0 0 0, mouse = (Finite 0, Finite 0),
     renderer_size = (300, 150), renderer_pixelRatio = 1, canvas_size = (300, 150),
     composer_size = (0, 0), composer_pixelRatio = 1, composer_buffer = (0, 0),
     starMaterial_size = 0.08, starDust = 0, innerWidth = W, innerHeight = H\<rparr>"

text \<open>
  The script, in its order; \<open>dpr\<close> is \<^verbatim>\<open>window.devicePixelRatio\<close> when the page loads.
\<close>

definition script :: "nat \<Rightarrow> nat \<Rightarrow> string option \<Rightarrow> real \<Rightarrow> State" where
  "script W H bb dpr =
     (let (sc, st1) = create Scene (start W H bb);
          sta = renderer_setSize (innerWidth st1) (innerHeight st1) st1;
          stb = renderer_setPixelRatio (min dpr 2) sta;
          (sunLight, st2) = create Light stb;
          st3 = add_to sc sunLight st2;
          (ambient, st4) = create Light st3;
          st5 = add_to sc ambient st4;
          (sunGroup, st6) = create Group st5;
          st7 = add_to sc sunGroup st6;
          (sunCore, st8) = create Mesh st7;
          st9 = add_to sunGroup sunCore st8;
          (sd, st10) = create Points st9;
          st11 = add_to sc sd (st10\<lparr>starDust := sd\<rparr>);
          (mercury, st12) = createPlanet 0.4 0xffccaa 8 0.012 ''Mercury''
             [\<lparr>cfg_size = 0.08, cfg_dist = 0.9, cfg_speed = 0.04\<rparr>] st11;
          (earth, st13) = createPlanet 0.7 0x00aaff 14 0.008 ''Earth''
             [\<lparr>cfg_size = 0.12, cfg_dist = 1.3, cfg_speed = 0.03\<rparr>,
              \<lparr>cfg_size = 0.08, cfg_dist = 1.8, cfg_speed = 0.02\<rparr>] st12;
          (jupiter, st14) = createPlanet 1.1 0xcc88ff 22 0.005 ''Jupiter''
             [\<lparr>cfg_size = 0.15, cfg_dist = 2.2, cfg_speed = 0.015\<rparr>] st13
      in new_EffectComposer st14)"

section \<open>The library's queries\<close>

text \<open>
  \<^verbatim>\<open>object.getWorldPosition(v)\<close> brings the world matrices of the object and of all its
  ancestors up to date and reads the translation of the object's own: the object's position,
  carried through the rotation and the translation of each ancestor in turn. The walk up the
  parents is bounded by the number of objects there are; on a graph with a cycle the
  library's recursion does not return, which is \<open>None\<close> here.
\<close>

definition rotateY :: "real \<Rightarrow> Vector3 \<Rightarrow> Vector3" where
  "rotateY a v = Vector3 (cos a * vx v + sin a * vz v) (vy v) (- sin a * vx v + cos a * vz v)"

fun localToWorld :: "nat \<Rightarrow> store \<Rightarrow> nat option \<Rightarrow> Vector3 \<Rightarrow> Vector3 option" where
  "localToWorld k s None v = Some v"
| "localToWorld 0 s (Some a) v = None"
| "localToWorld (Suc k) s (Some a) v =
     localToWorld k s (parent (s a)) (vadd (rotateY (rotation_y (s a)) v) (position (s a)))"

definition getWorldPosition :: "nat \<Rightarrow> store \<Rightarrow> nat \<Rightarrow> Vector3 option" where
  "getWorldPosition k s n = localToWorld k s (parent (s n)) (position (s n))"

text \<open>
  \<^verbatim>\<open>raycaster.intersectObjects(objects, recursive = true)\<close> asks each object, and with
  \<open>recursive\<close> each of its descendants, to push its own intersections with the ray onto one
  array, and returns the array sorted by distance (a stable sort). \<open>recursive\<close> has been
  true by default since release 127 of the library; the script loads its add-ons from
  \<^verbatim>\<open>three/addons/\<close>, a path that only later releases have. Only objects with a geometry
  (a mesh, a point cloud) answer; a group or a light pushes nothing. Where the ray meets
  the surface of an object is the library's geometry: it is the parameter \<open>ray\<close>, the
  distances from the camera at which the ray of this click meets the object's own geometry.
  The descent through the children is bounded like the walk up the parents.
\<close>

record Intersection =
  distance :: real
  object :: nat

definition raycast :: "store \<Rightarrow> (nat \<Rightarrow> real list) \<Rightarrow> nat \<Rightarrow> Intersection list" where
  "raycast s ray obj = (if kind (s obj) = Mesh \<or> kind (s obj) = Points
     then map (\<lambda>d. \<lparr>distance = d, object = obj\<rparr>) (ray obj) else [])"

fun intersect ::
  "nat \<Rightarrow> store \<Rightarrow> (nat \<Rightarrow> real list) \<Rightarrow> bool \<Rightarrow> nat \<Rightarrow> Intersection list option
     \<Rightarrow> Intersection list option" where
  "intersect k s ray recursive obj None = None"
| "intersect 0 s ray recursive obj (Some intersects) = None"
| "intersect (Suc k) s ray recursive obj (Some intersects) =
     (let intersects1 = Some (intersects @ raycast s ray obj)
      in if recursive then fold (intersect k s ray True) (children (s obj)) intersects1
         else intersects1)"

definition intersectObjects ::
  "nat \<Rightarrow> store \<Rightarrow> (nat \<Rightarrow> real list) \<Rightarrow> nat list \<Rightarrow> bool \<Rightarrow> Intersection list option" where
  "intersectObjects k s ray objects recursive =
     map_option (sort_key distance) (fold (intersect k s ray recursive) objects (Some []))"

section \<open>The listeners\<close>

text \<open>
  Each listener is a function on the state. \<open>None\<close> is a call that does not return,
  which can only come from one of the two library queries above.

  The click listener on the window: the pointer's coordinates go into \<^verbatim>\<open>mouse\<close>, the ray
  is cast against \<^verbatim>\<open>planets.map(p => p.planet)\<close>, and the first intersection, if there is one, becomes
  the focused object, the back element (if the page has one) is shown, and the camera jumps.
  The call of \<^verbatim>\<open>intersectObjects\<close> gives no second argument, so \<open>recursive\<close> is \<open>True\<close>.
\<close>

definition pickable :: "State \<Rightarrow> nat list" where
  "pickable st = map planet (planets st)"

definition click_listener :: "real \<Rightarrow> real \<Rightarrow> (nat \<Rightarrow> real list) \<Rightarrow> State \<Rightarrow> State option" where
  "click_listener clientX clientY ray st =
     (let st1 = st\<lparr>mouse := (js_affine 2 (- 1) (js_div clientX (real (innerWidth st))),
                            js_affine (- 2) 1 (js_div clientY (real (innerHeight st))))\<rparr>
      in case intersectObjects (count st1) (nodes st1) ray (pickable st1) True of
           None \<Rightarrow> None
         | Some [] \<Rightarrow> Some st1
         | Some (i # _) \<Rightarrow>
             (let st2 = st1\<lparr>focusedPlanet := Some (object i)\<rparr>;
                  st3 = (case backButton st2 of None \<Rightarrow> st2
                         | Some _ \<Rightarrow> st2\<lparr>backButton := Some ''block''\<rparr>)
              in case getWorldPosition (count st3) (nodes st3) (object i) of
                   None \<Rightarrow> None
                 | Some worldPos \<Rightarrow>
                     Some (st3\<lparr>camera_position := vadd worldPos (Vector3 5 3 5)\<rparr>)))"

text \<open>
  The listener on the back element. The script registers it only when the element exists
  (\<^verbatim>\<open>if (backButton) { ... }\<close>), so it runs only in a state with \<open>backButton st \<noteq> None\<close>.
\<close>

definition back_listener :: "State \<Rightarrow> State" where
  "back_listener st = st\<lparr>focusedPlanet := None, backButton := Some ''none'',
     controls_target := Vector3 0 0 0\<rparr>"

text \<open>
  The resize listener reads the viewport's size; the projection matrix that
  \<^verbatim>\<open>updateProjectionMatrix\<close> recomputes is a function of the aspect ratio and is not kept.
\<close>

definition resize_listener :: "State \<Rightarrow> State" where
  "resize_listener st =
     (let st1 = st\<lparr>camera_aspect := js_div (real (innerWidth st)) (real (innerHeight st))\<rparr>;
          st2 = renderer_setSize (innerWidth st1) (innerHeight st1) st1
      in composer_setSize (innerWidth st2) (innerHeight st2) st2)"

section \<open>The animation loop\<close>

definition rotate_y :: "nat \<Rightarrow> real \<Rightarrow> store \<Rightarrow> store" where
  "rotate_y n d s = s(n := (s n)\<lparr>rotation_y := rotation_y (s n) + d\<rparr>)"

definition tick_moon :: "moonObj \<Rightarrow> store \<Rightarrow> store" where
  "tick_moon m s = rotate_y (m_group m) (m_speed m) s"

text \<open>The body of \<^verbatim>\<open>planets.forEach(p => ...)\<close> for one planet.\<close>

definition tick_planet :: "real \<Rightarrow> planetObj \<Rightarrow> store \<Rightarrow> store" where
  "tick_planet ts p s =
     fold tick_moon (moons p)
       (rotate_y (planet p) 0.01 (rotate_y (orbitGroup p) (speed p * ts) s))"

text \<open>The target of the smoothing: \<^verbatim>\<open>focusedPlanet ? 0.1 : 1.0\<close>.\<close>

definition targetScale :: "State \<Rightarrow> real" where
  "targetScale st = (if focusedPlanet st \<noteq> None then 0.1 else 1.0)"

text \<open>
  \<^verbatim>\<open>tick\<close> up to the call of \<^verbatim>\<open>controls.update()\<close>; \<open>now\<close> is \<^verbatim>\<open>Date.now()\<close>.
\<close>

definition tick_update :: "real \<Rightarrow> State \<Rightarrow> State option" where
  "tick_update now st =
     (let time = now * 0.001;
          ts = lerp (timeScale st) (targetScale st) 0.05;
          s1 = rotate_y (starDust st) (0.0001 * ts) (nodes st);
          s2 = fold (tick_planet ts) (planets st) s1;
          st1 = st\<lparr>timeScale := ts, nodes := s2,
                    starMaterial_size := 0.07 + sin (time * 3) * 0.01\<rparr>
      in case focusedPlanet st1 of
           None \<Rightarrow> Some st1
         | Some f \<Rightarrow>
             (case getWorldPosition (count st1) (nodes st1) f of
                None \<Rightarrow> None
              | Some worldPos \<Rightarrow> Some (st1\<lparr>controls_target := worldPos\<rparr>)))"

text \<open>
  \<^verbatim>\<open>controls.update()\<close> is the library's orbit controller: from the user's pending drag,
  wheel and pan input it moves the camera around the target and may shift the target. It is
  the parameter \<open>ctl\<close>, from the camera position and the target to the new ones. Rendering
  and the request for the next frame change nothing of the state.
\<close>

definition controls_update :: "(Vector3 \<times> Vector3 \<Rightarrow> Vector3 \<times> Vector3) \<Rightarrow> State \<Rightarrow> State" where
  "controls_update ctl st =
     (let (p, t) = ctl (camera_position st, controls_target st)
      in st\<lparr>camera_position := p, controls_target := t\<rparr>)"

definition tick :: "real \<Rightarrow> (Vector3 \<times> Vector3 \<Rightarrow> Vector3 \<times> Vector3) \<Rightarrow> State \<Rightarrow> State option" where
  "tick now ctl st = map_option (controls_update ctl) (tick_update now st)"

section \<open>Runs\<close>

text \<open>
  What the host can do to the page after the script has run: run the click listener of
  the window, the listener of the back element, a frame, or the resize listener after a
  change of the viewport. The listener of the back element runs only if the script
  registered it. (The browser delivers a click on the back element to that listener and
  then, as the event bubbles, to the window's: in a run that is a \<open>Back\<close> followed by a
  \<open>Click\<close>.) The script itself ends by running the first frame, so what really happens is
  a run that starts with a \<open>Frame\<close>.
\<close>

datatype event =
    Click real real "nat \<Rightarrow> real list"
  | Back
  | Frame real "Vector3 \<times> Vector3 \<Rightarrow> Vector3 \<times> Vector3"
  | Resize nat nat

fun dispatch :: "State \<Rightarrow> event \<Rightarrow> State option" where
  "dispatch st (Click clientX clientY ray) = click_listener clientX clientY ray st"
| "dispatch st Back = (if backButton st = None then Some st else Some (back_listener st))"
| "dispatch st (Frame now ctl) = tick now ctl st"
| "dispatch st (Resize W H) = Some (resize_listener (st\<lparr>innerWidth := W, innerHeight := H\<rparr>))"

fun run :: "State \<Rightarrow> event list \<Rightarrow> State option" where
  "run st [] = Some st"
| "run st (e # es) = (case dispatch st e of None \<Rightarrow> None | Some st' \<Rightarrow> run st' es)"

section \<open>The scene the script builds\<close>

text \<open>
  The store after the script, written out: the scene (0), the two lights (1, 2), the sun's
  group and core (3, 4), the star dust (5), and for each planet its orbit group, its mesh,
  and for each moon the moon's orbit group and mesh.
\<close>

definition obj :: "kind \<Rightarrow> nat option \<Rightarrow> nat list \<Rightarrow> real \<Rightarrow> string option \<Rightarrow> Object3D" where
  "obj k p cs x u = \<lparr>kind = k, parent = p, children = cs, position = Vector3 x 0 0,
     rotation_y = 0, userData = u\<rparr>"

definition built :: store where
  "built = (\<lambda>_. new_Object3D Group)
     (0 := obj Scene None [1, 2, 3, 5, 6, 10, 16] 0 None,
      1 := obj Light (Some 0) [] 0 None,
      2 := obj Light (Some 0) [] 0 None,
      3 := obj Group (Some 0) [4] 0 None,
      4 := obj Mesh (Some 3) [] 0 None,
      5 := obj Points (Some 0) [] 0 None,
      6 := obj Group (Some 0) [7] 0 None,
      7 := obj Mesh (Some 6) [8] 8 (Some ''Mercury''),
      8 := obj Group (Some 7) [9] 0 None,
      9 := obj Mesh (Some 8) [] 0.9 None,
      10 := obj Group (Some 0) [11] 0 None,
      11 := obj Mesh (Some 10) [12, 14] 14 (Some ''Earth''),
      12 := obj Group (Some 11) [13] 0 None,
      13 := obj Mesh (Some 12) [] 1.3 None,
      14 := obj Group (Some 11) [15] 0 None,
      15 := obj Mesh (Some 14) [] 1.8 None,
      16 := obj Group (Some 0) [17] 0 None,
      17 := obj Mesh (Some 16) [18] 22 (Some ''Jupiter''),
      18 := obj Group (Some 17) [19] 0 None,
      19 := obj Mesh (Some 18) [] 2.2 None)"

definition built_planets :: "planetObj list" where
  "built_planets =
     [\<lparr>orbitGroup = 6, speed = 0.012, planet = 7, moons = [\<lparr>m_group = 8, m_speed = 0.04\<rparr>]\<rparr>,
      \<lparr>orbitGroup = 10, speed = 0.008, planet = 11,
         moons = [\<lparr>m_group = 12, m_speed = 0.03\<rparr>, \<lparr>m_group = 14, m_speed = 0.02\<rparr>]\<rparr>,
      \<lparr>orbitGroup = 16, speed = 0.005, planet = 17, moons = [\<lparr>m_group = 18, m_speed = 0.015\<rparr>]\<rparr>]"

text \<open>Two stores have the same shape when they differ at most in the angles.\<close>

definition same_shape :: "store \<Rightarrow> store \<Rightarrow> bool" where
  "same_shape s t = (\<forall>n. kind (s n) = kind (t n) \<and> parent (s n) = parent (t n) \<and>
     children (s n) = children (t n) \<and> position (s n) = position (t n) \<and>
     userData (s n) = userData (t n))"

text \<open>The meshes below the planets' orbit groups: the three planets and the four moons.\<close>

definition planet_meshes :: "nat set" where "planet_meshes = {7, 11, 17}"

definition moon_meshes :: "nat set" where "moon_meshes = {9, 13, 15, 19}"

text \<open>What every state of a run has in common.\<close>

definition invar :: "State \<Rightarrow> bool" where
  "invar st = (same_shape (nodes st) built \<and> rotation_y (nodes st 0) = 0 \<and> count st = 20 \<and>
     planets st = built_planets \<and> starDust st = 5 \<and>
     (case focusedPlanet st of None \<Rightarrow> True | Some f \<Rightarrow> f \<in> planet_meshes \<union> moon_meshes) \<and>
     0.1 \<le> timeScale st \<and> timeScale st \<le> 1)"

text \<open>The intersections that one object contributes for a ray.\<close>

definition hits :: "(nat \<Rightarrow> real list) \<Rightarrow> nat \<Rightarrow> Intersection list" where
  "hits ray n = map (\<lambda>d. \<lparr>distance = d, object = n\<rparr>) (ray n)"

text \<open>The objects a click with a given ray reports, and the name tag of an object.\<close>

definition picked_objects :: "(nat \<Rightarrow> real list) \<Rightarrow> State \<Rightarrow> nat list option" where
  "picked_objects ray st =
     map_option (map object) (intersectObjects (count st) (nodes st) ray (pickable st) True)"

definition name_of :: "nat \<Rightarrow> State \<Rightarrow> string option" where
  "name_of n st = userData (nodes st n)"

text \<open>All the intersections a ray has with the planets and the moons, nearest first.\<close>

definition picked :: "(nat \<Rightarrow> real list) \<Rightarrow> Intersection list" where
  "picked ray = sort_key distance (hits ray 7 @ hits ray 9 @ hits ray 11 @ hits ray 13 @
     hits ray 15 @ hits ray 17 @ hits ray 19)"

text \<open>The store after the rotations of one frame, for the planets the script built.\<close>

definition tick_nodes :: "real \<Rightarrow> store \<Rightarrow> store" where
  "tick_nodes ts s = fold (tick_planet ts) built_planets (rotate_y 5 (0.0001 * ts) s)"

text \<open>
  Some rays, by the objects they meet: only the Earth; Mercury in front of the Earth; the
  Earth's first moon in front of the Earth; only the Earth's first moon.
\<close>

definition ray_earth :: "nat \<Rightarrow> real list" where
  "ray_earth n = (if n = 11 then [5] else [])"

definition ray_mercury_earth :: "nat \<Rightarrow> real list" where
  "ray_mercury_earth n = (if n = 7 then [2] else if n = 11 then [5] else [])"

definition ray_moon_earth :: "nat \<Rightarrow> real list" where
  "ray_moon_earth n = (if n = 13 then [3] else if n = 11 then [5] else [])"

definition ray_moon :: "nat \<Rightarrow> real list" where
  "ray_moon n = (if n = 13 then [3] else [])"

section \<open>Facts about the built scene\<close>

lemma add_fresh: "parent (s c) = None \<Longrightarrow> p \<noteq> c \<Longrightarrow>
   add p c s = s(c := (s c)\<lparr>parent := Some p\<rparr>, p := (s p)\<lparr>children := children (s p) @ [c]\<rparr>)"
  by (simp add: add_def Let_def removeFromParent_def)

lemmas build_defs = script_def start_def create_def add_to_def add_fresh
  createPlanet_def createMoon_def set_position_x_def scene_def new_Object3D_def Let_def
  renderer_setSize_def renderer_setPixelRatio_def composer_setSize_def new_EffectComposer_def

lemma count_script: "count (script W H bb dpr) = 20"
  by (simp add: build_defs)

lemma planets_script: "planets (script W H bb dpr) = built_planets"
  by (simp add: build_defs built_planets_def)

lemma nodes_script: "nodes (script W H bb dpr) = built"
  by (rule ext) (simp add: build_defs built_def obj_def)

lemma script_fields:
  "focusedPlanet (script W H bb dpr) = None" "timeScale (script W H bb dpr) = 1"
  "backButton (script W H bb dpr) = bb" "starDust (script W H bb dpr) = 5"
  "innerWidth (script W H bb dpr) = W" "innerHeight (script W H bb dpr) = H"
  "camera_position (script W H bb dpr) = Vector3 25 20 40"
  "controls_target (script W H bb dpr) = Vector3 0 0 0"
  "renderer_pixelRatio (script W H bb dpr) = min dpr 2"
  "composer_pixelRatio (script W H bb dpr) = min dpr 2"
  "renderer_size (script W H bb dpr) = (W, H)" "composer_size (script W H bb dpr) = (W, H)"
  "canvas_size (script W H bb dpr) = (\<lfloor>real W * min dpr 2\<rfloor>, \<lfloor>real H * min dpr 2\<rfloor>)"
  "composer_buffer (script W H bb dpr) = (real W * min dpr 2, real H * min dpr 2)"
  by (simp_all add: build_defs)

lemma same_shape_refl: "same_shape s s"
  by (simp add: same_shape_def)

lemma same_shape_rotate_y: "same_shape (rotate_y n d s) t = same_shape s t"
  by (auto simp add: same_shape_def rotate_y_def)

lemma same_shape_tick_moons: "same_shape (fold tick_moon ms s) t = same_shape s t"
  by (induction ms arbitrary: s) (simp_all add: tick_moon_def same_shape_rotate_y)

lemma same_shape_tick_planet: "same_shape (tick_planet ts p s) t = same_shape s t"
  by (simp add: tick_planet_def same_shape_tick_moons same_shape_rotate_y)

lemma same_shape_tick_planets: "same_shape (fold (tick_planet ts) ps s) t = same_shape s t"
  by (induction ps arbitrary: s) (simp_all add: same_shape_tick_planet)

lemma built_at:
  "built 0 = obj Scene None [1, 2, 3, 5, 6, 10, 16] 0 None"
  "built 4 = obj Mesh (Some 3) [] 0 None"
  "built 5 = obj Points (Some 0) [] 0 None"
  "built 6 = obj Group (Some 0) [7] 0 None"
  "built 7 = obj Mesh (Some 6) [8] 8 (Some ''Mercury'')"
  "built 8 = obj Group (Some 7) [9] 0 None"
  "built 9 = obj Mesh (Some 8) [] 0.9 None"
  "built 10 = obj Group (Some 0) [11] 0 None"
  "built 11 = obj Mesh (Some 10) [12, 14] 14 (Some ''Earth'')"
  "built 12 = obj Group (Some 11) [13] 0 None"
  "built 13 = obj Mesh (Some 12) [] 1.3 None"
  "built 14 = obj Group (Some 11) [15] 0 None"
  "built 15 = obj Mesh (Some 14) [] 1.8 None"
  "built 16 = obj Group (Some 0) [17] 0 None"
  "built 17 = obj Mesh (Some 16) [18] 22 (Some ''Jupiter'')"
  "built 18 = obj Group (Some 17) [19] 0 None"
  "built 19 = obj Mesh (Some 18) [] 2.2 None"
  by (simp_all add: built_def)

lemma obj_sel:
  "kind (obj k p cs x u) = k" "parent (obj k p cs x u) = p" "children (obj k p cs x u) = cs"
  "position (obj k p cs x u) = Vector3 x 0 0" "userData (obj k p cs x u) = u"
  by (simp_all add: obj_def)

lemma shapeD:
  assumes "same_shape s built"
  shows "kind (s n) = kind (built n)" "parent (s n) = parent (built n)"
    "children (s n) = children (built n)" "position (s n) = position (built n)"
    "userData (s n) = userData (built n)"
  using assms by (simp_all add: same_shape_def)

lemma raycast_shape:
  "same_shape s built \<Longrightarrow> raycast s ray n = (if kind (built n) = Mesh \<or> kind (built n) = Points then hits ray n else [])"
  by (simp add: raycast_def hits_def shapeD)

lemma intersect_mercury:
  assumes "same_shape s built"
  shows "intersect (Suc (Suc (Suc k))) s ray True 7 (Some acc) = Some (acc @ hits ray 7 @ hits ray 9)"
  using assms by (simp add: raycast_shape shapeD built_at obj_sel)

lemma intersect_earth:
  assumes "same_shape s built"
  shows "intersect (Suc (Suc (Suc k))) s ray True 11 (Some acc)
     = Some (acc @ hits ray 11 @ hits ray 13 @ hits ray 15)"
  using assms by (simp add: raycast_shape shapeD built_at obj_sel)

lemma intersect_jupiter:
  assumes "same_shape s built"
  shows "intersect (Suc (Suc (Suc k))) s ray True 17 (Some acc) = Some (acc @ hits ray 17 @ hits ray 19)"
  using assms by (simp add: raycast_shape shapeD built_at obj_sel)

lemma intersect_20:
  assumes "same_shape s built"
  shows "intersect 20 s ray True 7 (Some acc) = Some (acc @ hits ray 7 @ hits ray 9)"
    "intersect 20 s ray True 11 (Some acc) = Some (acc @ hits ray 11 @ hits ray 13 @ hits ray 15)"
    "intersect 20 s ray True 17 (Some acc) = Some (acc @ hits ray 17 @ hits ray 19)"
  using intersect_mercury [OF assms, of 17 ray acc] intersect_earth [OF assms, of 17 ray acc]
    intersect_jupiter [OF assms, of 17 ray acc]
  by (simp_all del: intersect.simps)

lemma pick_shape:
  assumes "same_shape s built"
  shows "intersectObjects 20 s ray (map planet built_planets) True =
     Some (picked ray)"
  by (simp add: picked_def intersectObjects_def built_planets_def intersect_20 [OF assms] del: intersect.simps)

lemma rotateY_0: "rotateY 0 v = v"
  by (simp add: rotateY_def)

lemma vadd_0: "vadd v (Vector3 0 0 0) = v"
  by (simp add: vadd_def)

lemma world_planet_fuel:
  assumes "same_shape s built" "rotation_y (s 0) = 0"
  shows "getWorldPosition (Suc (Suc k)) s 7 = Some (rotateY (rotation_y (s 6)) (Vector3 8 0 0))"
    "getWorldPosition (Suc (Suc k)) s 11 = Some (rotateY (rotation_y (s 10)) (Vector3 14 0 0))"
    "getWorldPosition (Suc (Suc k)) s 17 = Some (rotateY (rotation_y (s 16)) (Vector3 22 0 0))"
  using assms
  by (simp_all add: getWorldPosition_def shapeD built_at obj_sel rotateY_0 vadd_0)

lemma world_planet:
  assumes "same_shape s built" "rotation_y (s 0) = 0"
  shows "getWorldPosition 20 s 7 = Some (rotateY (rotation_y (s 6)) (Vector3 8 0 0))"
    "getWorldPosition 20 s 11 = Some (rotateY (rotation_y (s 10)) (Vector3 14 0 0))"
    "getWorldPosition 20 s 17 = Some (rotateY (rotation_y (s 16)) (Vector3 22 0 0))"
  using world_planet_fuel [OF assms, of 18] by simp_all

lemma world_exists_fuel:
  assumes "same_shape s built"
  shows "\<exists>w. getWorldPosition (Suc (Suc (Suc (Suc k)))) s 7 = Some w"
    "\<exists>w. getWorldPosition (Suc (Suc (Suc (Suc k)))) s 9 = Some w"
    "\<exists>w. getWorldPosition (Suc (Suc (Suc (Suc k)))) s 11 = Some w"
    "\<exists>w. getWorldPosition (Suc (Suc (Suc (Suc k)))) s 13 = Some w"
    "\<exists>w. getWorldPosition (Suc (Suc (Suc (Suc k)))) s 15 = Some w"
    "\<exists>w. getWorldPosition (Suc (Suc (Suc (Suc k)))) s 17 = Some w"
    "\<exists>w. getWorldPosition (Suc (Suc (Suc (Suc k)))) s 19 = Some w"
  using assms
  by (simp_all add: getWorldPosition_def shapeD built_at obj_sel)

lemma world_total:
  assumes "same_shape s built" "f \<in> planet_meshes \<union> moon_meshes"
  shows "\<exists>w. getWorldPosition 20 s f = Some w"
  using world_exists_fuel [OF assms(1), of 16] assms(2)
  by (auto simp add: planet_meshes_def moon_meshes_def)

lemma object_hits: "i \<in> set (hits ray n) \<Longrightarrow> object i = n"
  by (auto simp add: hits_def)

lemma object_picked: "i \<in> set (picked ray) \<Longrightarrow> object i \<in> planet_meshes \<union> moon_meshes"
  by (auto simp add: picked_def planet_meshes_def moon_meshes_def dest: object_hits)

lemma invar_script: "invar (script W H bb dpr)"
  by (simp add: invar_def nodes_script count_script planets_script script_fields same_shape_refl
      built_at obj_def)

lemma click_none:
  assumes "invar st" "picked ray = []"
  shows "click_listener cx cy ray st =
     Some (st\<lparr>mouse := (js_affine 2 (- 1) (js_div cx (real (innerWidth st))),
                        js_affine (- 2) 1 (js_div cy (real (innerHeight st))))\<rparr>)"
  using assms by (simp add: click_listener_def pickable_def invar_def pick_shape)

lemma click_hit:
  assumes "invar st" "picked ray = i # rest"
  shows "\<exists>w. getWorldPosition 20 (nodes st) (object i) = Some w \<and>
     click_listener cx cy ray st =
     Some (st\<lparr>mouse := (js_affine 2 (- 1) (js_div cx (real (innerWidth st))),
                        js_affine (- 2) 1 (js_div cy (real (innerHeight st)))),
              focusedPlanet := Some (object i),
              backButton := (case backButton st of None \<Rightarrow> None | Some d \<Rightarrow> Some ''block''),
              camera_position := vadd w (Vector3 5 3 5)\<rparr>)"
proof -
  have "object i \<in> planet_meshes \<union> moon_meshes"
    using object_picked [of i ray] assms(2) by simp
  then obtain w where w: "getWorldPosition 20 (nodes st) (object i) = Some w"
    using world_total assms(1) by (auto simp add: invar_def)
  show ?thesis
    using assms w
    by (cases "backButton st") (simp_all add: click_listener_def pickable_def invar_def pick_shape)
qed

section \<open>Every run keeps the invariant\<close>

lemma tick_nodes_built:
  "fold (tick_planet ts) built_planets s =
     (rotate_y 18 0.015 (rotate_y 17 0.01 (rotate_y 16 (0.005 * ts)
     (rotate_y 14 0.02 (rotate_y 12 0.03 (rotate_y 11 0.01 (rotate_y 10 (0.008 * ts)
     (rotate_y 8 0.04 (rotate_y 7 0.01 (rotate_y 6 (0.012 * ts) s))))))))))"
  by (simp add: built_planets_def tick_planet_def tick_moon_def)

lemma lerp_bounds:
  assumes "0.1 \<le> x" "x \<le> 1" "y = 0.1 \<or> y = 1"
  shows "0.1 \<le> lerp x y 0.05 \<and> lerp x y 0.05 \<le> 1"
  using assms by (auto simp add: lerp_def)

lemma lerp_step: "lerp x y 0.05 = x + (y - x) * 0.05"
  unfolding lerp_def by argo

lemma targetScale_cases: "targetScale st = 0.1 \<or> targetScale st = 1"
  by (simp add: targetScale_def)

lemma tick_update_invar:
  assumes "invar st"
  shows "\<exists>w. (case focusedPlanet st of None \<Rightarrow> w = controls_target st
            | Some f \<Rightarrow> getWorldPosition 20 (tick_nodes (lerp (timeScale st) (targetScale st) 0.05) (nodes st)) f = Some w) \<and>
     tick_update now st =
       Some (st\<lparr>timeScale := lerp (timeScale st) (targetScale st) 0.05,
                nodes := tick_nodes (lerp (timeScale st) (targetScale st) 0.05) (nodes st),
                starMaterial_size := 0.07 + sin (now * 0.001 * 3) * 0.01,
                controls_target := w\<rparr>)"
proof (cases "focusedPlanet st")
  case None
  then show ?thesis
    using assms by (simp add: tick_update_def Let_def invar_def tick_nodes_def)
next
  case (Some f)
  let ?s = "tick_nodes (lerp (timeScale st) (targetScale st) 0.05) (nodes st)"
  have "same_shape ?s built"
    using assms by (simp add: tick_nodes_def invar_def same_shape_tick_planets same_shape_rotate_y)
  moreover have "f \<in> planet_meshes \<union> moon_meshes"
    using assms Some by (simp add: invar_def)
  ultimately obtain w where "getWorldPosition 20 ?s f = Some w"
    using world_total by blast
  then show ?thesis
    using assms Some by (simp add: tick_update_def Let_def invar_def tick_nodes_def)
qed

lemma tick_nodes_0: "rotation_y (tick_nodes ts s 0) = rotation_y (s 0)"
  by (simp add: tick_nodes_def tick_nodes_built rotate_y_def)

lemma same_shape_tick_nodes: "same_shape (tick_nodes ts s) t = same_shape s t"
  by (simp add: tick_nodes_def same_shape_tick_planets same_shape_rotate_y)

lemma tick_invar:
  assumes "invar st"
  shows "\<exists>st'. tick now ctl st = Some st' \<and> invar st' \<and> focusedPlanet st' = focusedPlanet st \<and>
     backButton st' = backButton st \<and>
     timeScale st' = lerp (timeScale st) (targetScale st) 0.05"
proof -
  obtain w where "tick_update now st =
       Some (st\<lparr>timeScale := lerp (timeScale st) (targetScale st) 0.05,
                nodes := tick_nodes (lerp (timeScale st) (targetScale st) 0.05) (nodes st),
                starMaterial_size := 0.07 + sin (now * 0.001 * 3) * 0.01,
                controls_target := w\<rparr>)"
    using tick_update_invar [OF assms] by blast
  moreover have "0.1 \<le> lerp (timeScale st) (targetScale st) 0.05 \<and>
      lerp (timeScale st) (targetScale st) 0.05 \<le> 1"
    using assms targetScale_cases [of st] by (intro lerp_bounds) (simp_all add: invar_def)
  ultimately show ?thesis
    using assms
    by (simp add: tick_def controls_update_def invar_def same_shape_tick_nodes tick_nodes_0
        split: prod.splits)
qed


lemma click_invar:
  assumes "invar st"
  shows "\<exists>st'. click_listener cx cy ray st = Some st' \<and> invar st' \<and>
     (focusedPlanet st \<noteq> None \<longrightarrow> focusedPlanet st' \<noteq> None) \<and>
     (backButton st = None \<longrightarrow> backButton st' = None) \<and>
     timeScale st' = timeScale st \<and> nodes st' = nodes st"
proof (cases "picked ray")
  case Nil
  show ?thesis
    unfolding click_none [OF assms Nil] using assms by (simp add: invar_def)
next
  case (Cons i rest)
  have "object i \<in> planet_meshes \<union> moon_meshes"
    using object_picked [of i ray] Cons by simp
  moreover obtain w where "click_listener cx cy ray st =
     Some (st\<lparr>mouse := (js_affine 2 (- 1) (js_div cx (real (innerWidth st))),
                        js_affine (- 2) 1 (js_div cy (real (innerHeight st)))),
              focusedPlanet := Some (object i),
              backButton := (case backButton st of None \<Rightarrow> None | Some d \<Rightarrow> Some ''block''),
              camera_position := vadd w (Vector3 5 3 5)\<rparr>)"
    using click_hit [OF assms Cons, of cx cy] by blast
  ultimately show ?thesis
    using assms by (simp add: invar_def)
qed

lemmas resize_defs = resize_listener_def renderer_setSize_def composer_setSize_def Let_def

lemma resize_invar: "invar st \<Longrightarrow> invar (resize_listener (st\<lparr>innerWidth := W, innerHeight := H\<rparr>))"
  by (simp add: invar_def resize_defs)

lemma back_invar: "invar st \<Longrightarrow> invar (back_listener st)"
  by (simp add: invar_def back_listener_def)

lemma dispatch_invar:
  assumes "invar st"
  shows "\<exists>st'. dispatch st e = Some st' \<and> invar st' \<and>
     (backButton st = None \<longrightarrow> backButton st' = None \<and>
        (focusedPlanet st \<noteq> None \<longrightarrow> focusedPlanet st' \<noteq> None))"
proof (cases e)
  case (Click cx cy ray)
  show ?thesis
    using click_invar [OF assms, of cx cy ray] unfolding Click by (elim exE conjE) simp
next
  case Back
  show ?thesis
  proof (cases "backButton st")
    case None
    then show ?thesis using Back assms by simp
  next
    case (Some d)
    then show ?thesis using Back back_invar [OF assms] by simp
  qed
next
  case (Frame now ctl)
  show ?thesis
    using tick_invar [OF assms, of now ctl] unfolding Frame by (elim exE conjE) simp
next
  case (Resize W H)
  have "backButton (resize_listener (st\<lparr>innerWidth := W, innerHeight := H\<rparr>)) = backButton st"
    "focusedPlanet (resize_listener (st\<lparr>innerWidth := W, innerHeight := H\<rparr>)) = focusedPlanet st"
    by (simp_all add: resize_defs)
  then show ?thesis using Resize resize_invar [OF assms] by simp
qed

lemma run_invar:
  assumes "invar st"
  shows "\<exists>st'. run st es = Some st' \<and> invar st' \<and>
     (backButton st = None \<longrightarrow> backButton st' = None \<and>
        (focusedPlanet st \<noteq> None \<longrightarrow> focusedPlanet st' \<noteq> None))"
  using assms
proof (induction es arbitrary: st)
  case Nil
  then show ?case by simp
next
  case (Cons e es)
  from dispatch_invar [OF Cons.prems, of e]
  obtain st1 where 1: "dispatch st e = Some st1" and 2: "invar st1"
    and 3: "backButton st = None \<longrightarrow> backButton st1 = None \<and>
        (focusedPlanet st \<noteq> None \<longrightarrow> focusedPlanet st1 \<noteq> None)"
    by (elim exE conjE)
  from Cons.IH [OF 2]
  obtain st2 where 4: "run st1 es = Some st2" and 5: "invar st2"
    and 6: "backButton st1 = None \<longrightarrow> backButton st2 = None \<and>
        (focusedPlanet st1 \<noteq> None \<longrightarrow> focusedPlanet st2 \<noteq> None)"
    by (elim exE conjE)
  have "run st (e # es) = Some st2"
    using 1 4 by simp
  moreover have "backButton st = None \<longrightarrow> backButton st2 = None \<and>
        (focusedPlanet st \<noteq> None \<longrightarrow> focusedPlanet st2 \<noteq> None)"
    using 3 6 by simp
  ultimately show ?case using 5 by simp
qed

lemma run_script: "\<exists>st. run (script W H bb dpr) es = Some st \<and> invar st"
  using run_invar [OF invar_script, of W H bb dpr es] by blast

lemma run_script_invar:
  assumes "run (script W H bb dpr) es = Some st"
  shows "invar st" "bb = None \<Longrightarrow> backButton st = None"
proof -
  from run_invar [OF invar_script, of W H bb dpr es]
  obtain st' where "run (script W H bb dpr) es = Some st'" "invar st'"
    "backButton (script W H bb dpr) = None \<longrightarrow> backButton st' = None \<and>
        (focusedPlanet (script W H bb dpr) \<noteq> None \<longrightarrow> focusedPlanet st' \<noteq> None)"
    by (elim exE conjE)
  then show "invar st" "bb = None \<Longrightarrow> backButton st = None"
    using assms by (simp_all add: script_fields)
qed

lemma click_hit_fields:
  assumes "invar st" "picked ray = i # rest"
  shows "\<exists>st' w. click_listener cx cy ray st = Some st' \<and> invar st' \<and>
     focusedPlanet st' = Some (object i) \<and>
     backButton st' = (case backButton st of None \<Rightarrow> None | Some d \<Rightarrow> Some ''block'') \<and>
     getWorldPosition 20 (nodes st) (object i) = Some w \<and>
     camera_position st' = vadd w (Vector3 5 3 5) \<and>
     timeScale st' = timeScale st \<and> nodes st' = nodes st \<and>
     controls_target st' = controls_target st \<and> planets st' = planets st"
proof -
  have "object i \<in> planet_meshes \<union> moon_meshes"
    using object_picked [of i ray] assms(2) by simp
  moreover from click_hit [OF assms, of cx cy]
  obtain w where "getWorldPosition 20 (nodes st) (object i) = Some w"
    "click_listener cx cy ray st =
     Some (st\<lparr>mouse := (js_affine 2 (- 1) (js_div cx (real (innerWidth st))),
                        js_affine (- 2) 1 (js_div cy (real (innerHeight st)))),
              focusedPlanet := Some (object i),
              backButton := (case backButton st of None \<Rightarrow> None | Some d \<Rightarrow> Some ''block''),
              camera_position := vadd w (Vector3 5 3 5)\<rparr>)"
    by (elim exE conjE)
  ultimately show ?thesis
    using assms(1) by (simp add: invar_def)
qed

lemma tick_fields:
  assumes "invar st"
  shows "\<exists>st' u. tick_update now st = Some u \<and> tick now ctl st = Some st' \<and>
     st' = controls_update ctl u \<and> invar u \<and>
     timeScale u = lerp (timeScale st) (targetScale st) 0.05 \<and>
     nodes u = tick_nodes (timeScale u) (nodes st) \<and>
     focusedPlanet u = focusedPlanet st \<and> planets u = planets st \<and> count u = count st \<and>
     (case focusedPlanet st of None \<Rightarrow> controls_target u = controls_target st
      | Some f \<Rightarrow> getWorldPosition 20 (nodes u) f = Some (controls_target u))"
proof -
  let ?ts = "lerp (timeScale st) (targetScale st) 0.05"
  from tick_update_invar [OF assms, of now]
  obtain w where w: "case focusedPlanet st of None \<Rightarrow> w = controls_target st
      | Some f \<Rightarrow> getWorldPosition 20 (tick_nodes ?ts (nodes st)) f = Some w"
    and u: "tick_update now st =
       Some (st\<lparr>timeScale := ?ts, nodes := tick_nodes ?ts (nodes st),
                starMaterial_size := 0.07 + sin (now * 0.001 * 3) * 0.01,
                controls_target := w\<rparr>)"
    by (elim exE conjE)
  have "0.1 \<le> ?ts \<and> ?ts \<le> 1"
    using assms targetScale_cases [of st] by (intro lerp_bounds) (simp_all add: invar_def)
  then show ?thesis
    using assms w unfolding tick_def u
    by (simp add: invar_def same_shape_tick_nodes tick_nodes_0 split: option.splits)
qed

lemma picked_ray_earth: "picked ray_earth = [\<lparr>distance = 5, object = 11\<rparr>]"
  by (simp add: picked_def hits_def ray_earth_def)

lemma picked_ray_mercury_earth:
  "picked ray_mercury_earth = [\<lparr>distance = 2, object = 7\<rparr>, \<lparr>distance = 5, object = 11\<rparr>]"
  by (simp add: picked_def hits_def ray_mercury_earth_def)

lemma picked_ray_moon_earth:
  "picked ray_moon_earth = [\<lparr>distance = 3, object = 13\<rparr>, \<lparr>distance = 5, object = 11\<rparr>]"
  by (simp add: picked_def hits_def ray_moon_earth_def)

lemma picked_ray_moon: "picked ray_moon = [\<lparr>distance = 3, object = 13\<rparr>]"
  by (simp add: picked_def hits_def ray_moon_def)

lemma picked_objects_invar: "invar st \<Longrightarrow> picked_objects ray st = Some (map object (picked ray))"
  by (simp add: picked_objects_def pickable_def invar_def pick_shape)

lemma name_of_invar: "invar st \<Longrightarrow> name_of n st = userData (built n)"
  by (simp add: name_of_def invar_def shapeD)

lemma pickable_invar: "invar st \<Longrightarrow> pickable st = [7, 11, 17]"
  by (simp add: pickable_def invar_def built_planets_def)

lemma first_frame:
  "\<exists>st. run (script W H bb dpr) [Frame now ctl] = Some st \<and> invar st \<and>
     focusedPlanet st = None \<and> timeScale st = 1 \<and> backButton st = bb"
proof -
  from tick_invar [where st = "script W H bb dpr" and now = now and ctl = ctl, OF invar_script]
  obtain st where "tick now ctl (script W H bb dpr) = Some st" "invar st"
    "focusedPlanet st = focusedPlanet (script W H bb dpr)" "backButton st = backButton (script W H bb dpr)"
    "timeScale st = lerp (timeScale (script W H bb dpr)) (targetScale (script W H bb dpr)) 0.05"
    by (elim exE conjE)
  then show ?thesis
    by (simp add: script_fields targetScale_def lerp_def)
qed

lemma frame_then_click:
  assumes "picked ray = i # rest"
  shows "\<exists>st st'. run (script W H bb dpr) [Frame now ctl] = Some st \<and> invar st \<and>
     focusedPlanet st = None \<and> backButton st = bb \<and>
     click_listener cx cy ray st = Some st' \<and>
     run (script W H bb dpr) [Frame now ctl, Click cx cy ray] = Some st' \<and> invar st' \<and>
     focusedPlanet st' = Some (object i) \<and> timeScale st' = 1"
proof -
  from first_frame [of W H bb dpr now ctl]
  obtain st where st: "run (script W H bb dpr) [Frame now ctl] = Some st" "invar st"
    "focusedPlanet st = None" "timeScale st = 1" "backButton st = bb"
    by (elim exE conjE)
  from click_hit_fields [OF st(2) assms, of cx cy]
  obtain st' where st': "click_listener cx cy ray st = Some st'" "invar st'"
    "focusedPlanet st' = Some (object i)" "timeScale st' = timeScale st"
    by (elim exE conjE)
  have "tick now ctl (script W H bb dpr) = Some st"
    using st(1) by (simp split: option.splits)
  then have "run (script W H bb dpr) [Frame now ctl, Click cx cy ray] = Some st'"
    using st'(1) by simp
  then show ?thesis
    using st st' by simp
qed

section \<open>The time scale\<close>

text \<open>
  Claim C1. In every state of every run the time scale lies between 0.1 and 1, the target
  of the smoothing is 0.1 with a focused object and 1 without, and the next frame returns
  and moves the time scale by one twentieth of its distance to the target.
\<close>

theorem timeScale_recurrence_bounds:
  "\<exists>st. run (script W H bb dpr) es = Some st \<and> 0.1 \<le> timeScale st \<and> timeScale st \<le> 1.0 \<and>
     targetScale st = (if focusedPlanet st = None then 1.0 else 0.1) \<and>
     (\<exists>st'. tick now ctl st = Some st' \<and>
        timeScale st' = timeScale st + (targetScale st - timeScale st) * 0.05)"
proof -
  from run_script [of W H bb dpr es]
  obtain st where st: "run (script W H bb dpr) es = Some st" "invar st"
    by (elim exE conjE)
  from tick_invar [OF st(2), of now ctl]
  obtain st' where st': "tick now ctl st = Some st'"
    "timeScale st' = lerp (timeScale st) (targetScale st) 0.05"
    by (elim exE conjE)
  have "timeScale st' = timeScale st + (targetScale st - timeScale st) * 0.05"
    using st'(2) by (simp only: lerp_step)
  moreover have "0.1 \<le> timeScale st" "timeScale st \<le> 1.0"
    using st(2) by (simp_all add: invar_def)
  moreover have "targetScale st = (if focusedPlanet st = None then 1.0 else 0.1)"
    by (simp add: targetScale_def)
  ultimately show ?thesis
    using st(1) st'(1) by blast
qed

section \<open>Resizing\<close>

text \<open>No listener and no frame writes a pixel ratio: both stay what the script made them.\<close>

lemma click_ratios:
  assumes "click_listener cx cy ray st = Some st'"
  shows "renderer_pixelRatio st' = renderer_pixelRatio st \<and>
     composer_pixelRatio st' = composer_pixelRatio st"
  using assms
  by (auto simp add: click_listener_def Let_def split: option.splits list.splits)

lemma tick_ratios:
  assumes "tick now ctl st = Some st'"
  shows "renderer_pixelRatio st' = renderer_pixelRatio st \<and>
     composer_pixelRatio st' = composer_pixelRatio st"
  using assms
  by (auto simp add: tick_def tick_update_def controls_update_def Let_def
      split: option.splits prod.splits)

lemma dispatch_ratios:
  assumes "dispatch st e = Some st'"
  shows "renderer_pixelRatio st' = renderer_pixelRatio st \<and>
     composer_pixelRatio st' = composer_pixelRatio st"
proof (cases e)
  case (Click cx cy ray)
  then show ?thesis using assms click_ratios by simp
next
  case Back
  then show ?thesis using assms by (auto simp add: back_listener_def split: if_splits)
next
  case (Frame now ctl)
  then show ?thesis using assms tick_ratios by simp
next
  case (Resize W H)
  then show ?thesis using assms by (auto simp add: resize_defs)
qed

lemma run_ratios:
  assumes "run st es = Some st'"
  shows "renderer_pixelRatio st' = renderer_pixelRatio st \<and>
     composer_pixelRatio st' = composer_pixelRatio st"
  using assms
proof (induction es arbitrary: st)
  case Nil
  then show ?case by simp
next
  case (Cons e es)
  then obtain st1 where 1: "dispatch st e = Some st1" and 2: "run st1 es = Some st'"
    by (auto split: option.splits)
  show ?case
    using dispatch_ratios [OF 1] Cons.IH [OF 2] by simp
qed

lemma resize_fields:
  "dispatch st (Resize W H) = Some (resize_listener (st\<lparr>innerWidth := W, innerHeight := H\<rparr>))"
  "camera_aspect (resize_listener (st\<lparr>innerWidth := W, innerHeight := H\<rparr>)) =
     (if H = 0 then NonFinite else Finite (real W / real H))"
  "renderer_size (resize_listener (st\<lparr>innerWidth := W, innerHeight := H\<rparr>)) = (W, H)"
  "composer_size (resize_listener (st\<lparr>innerWidth := W, innerHeight := H\<rparr>)) = (W, H)"
  "canvas_size (resize_listener (st\<lparr>innerWidth := W, innerHeight := H\<rparr>)) =
     (\<lfloor>real W * renderer_pixelRatio st\<rfloor>, \<lfloor>real H * renderer_pixelRatio st\<rfloor>)"
  "composer_buffer (resize_listener (st\<lparr>innerWidth := W, innerHeight := H\<rparr>)) =
     (real W * composer_pixelRatio st, real H * composer_pixelRatio st)"
  by (simp_all add: resize_defs js_div_def)

lemma resize_twice:
  "resize_listener (resize_listener (st\<lparr>innerWidth := W, innerHeight := H\<rparr>)
     \<lparr>innerWidth := W, innerHeight := H\<rparr>) =
   resize_listener (st\<lparr>innerWidth := W, innerHeight := H\<rparr>)"
  by (simp add: resize_defs)

text \<open>
  Claim C8 says that after a resize to \<open>(W, H)\<close> the dimensions of the renderer's surface
  and of the pipeline's buffers are \<open>(W, H)\<close>. On a display with a device pixel ratio of 2,
  after the first frame and a resize to 1200 by 800, the logical size of the renderer is
  1200 by 800, but its drawing surface and the buffers of the composer are 2400 by 1600.
\<close>

theorem resize_buffers_scale_with_pixel_ratio:
  "map_option renderer_size (run (script 800 600 None 2) [Frame 0 id, Resize 1200 800])
     = Some (1200, 800) \<and>
   map_option canvas_size (run (script 800 600 None 2) [Frame 0 id, Resize 1200 800])
     = Some (2400, 1600) \<and>
   map_option composer_buffer (run (script 800 600 None 2) [Frame 0 id, Resize 1200 800])
     = Some (2400, 1600)"
proof -
  from first_frame [of 800 600 None 2 0 id]
  obtain st where r: "run (script 800 600 None 2) [Frame 0 id] = Some st"
    by (elim exE conjE)
  have t: "tick 0 id (script 800 600 None 2) = Some st"
    using r by (simp split: option.splits)
  have "renderer_pixelRatio st = 2" "composer_pixelRatio st = 2"
    using run_ratios [OF r] by (simp_all add: script_fields)
  then show ?thesis
    using t by (simp add: resize_fields(2-6))
qed

text \<open>
  Claim C8, amended. After the viewport has changed to \<open>W\<close> by \<open>H\<close> in a run, the resize
  listener leaves the camera's aspect ratio at \<open>W / H\<close> (not a finite number when \<open>H\<close> is 0)
  and the logical sizes of the renderer and of the composer at \<open>(W, H)\<close>; the drawing surface
  of the renderer is \<open>W\<close> by \<open>H\<close> times the pixel ratio, rounded down, and the buffers of the
  composer are \<open>W\<close> by \<open>H\<close> times the pixel ratio, where the pixel ratio is the smaller of the
  device pixel ratio at start-up and 2. Running the listener again changes nothing.
\<close>

theorem resize_sets_sizes:
  "\<exists>st st'. run (script W0 H0 bb dpr) es = Some st \<and> dispatch st (Resize W H) = Some st' \<and>
     camera_aspect st' = (if H = 0 then NonFinite else Finite (real W / real H)) \<and>
     renderer_size st' = (W, H) \<and> composer_size st' = (W, H) \<and>
     canvas_size st' = (\<lfloor>real W * min dpr 2\<rfloor>, \<lfloor>real H * min dpr 2\<rfloor>) \<and>
     composer_buffer st' = (real W * min dpr 2, real H * min dpr 2) \<and>
     dispatch st' (Resize W H) = Some st'"
proof -
  from run_script [of W0 H0 bb dpr es]
  obtain st where r: "run (script W0 H0 bb dpr) es = Some st"
    by (elim exE conjE)
  have p: "renderer_pixelRatio st = min dpr 2" "composer_pixelRatio st = min dpr 2"
    using run_ratios [OF r] by (simp_all add: script_fields)
  let ?st' = "resize_listener (st\<lparr>innerWidth := W, innerHeight := H\<rparr>)"
  have "dispatch ?st' (Resize W H) = Some ?st'"
    by (simp only: resize_fields(1) resize_twice)
  then show ?thesis
    using r p resize_fields [where st = st and W = W and H = H] by auto
qed

section \<open>A page without the back element\<close>

text \<open>
  Claim C9. On a page without the back element, once an object is focused it stays focused
  whatever happens next: the element stays absent, a click on it reaches no listener, and
  the target of the time scale is 0.1.
\<close>

theorem no_back_element_focus_stays:
  assumes "run (script W H None dpr) es = Some st" and "focusedPlanet st \<noteq> None"
  shows "\<exists>st'. run st es' = Some st' \<and> focusedPlanet st' \<noteq> None \<and> backButton st' = None \<and>
     targetScale st' = 0.1 \<and> dispatch st' Back = Some st'"
proof -
  have inv: "invar st" and bb: "backButton st = None"
    using run_script_invar [OF assms(1)] by simp_all
  from run_invar [OF inv, of es']
  obtain st' where "run st es' = Some st'"
    "backButton st = None \<longrightarrow> backButton st' = None \<and>
        (focusedPlanet st \<noteq> None \<longrightarrow> focusedPlanet st' \<noteq> None)"
    by (elim exE conjE)
  then show ?thesis
    using bb assms(2) by (simp add: targetScale_def)
qed

theorem no_back_element_focus_stays_witness:
  "\<exists>st. run (script 800 600 None 2) [Frame 0 id, Click 400 300 ray_earth] = Some st \<and>
     focusedPlanet st \<noteq> None \<and>
     (\<exists>st'. run st [Back, Frame 0 id, Back] = Some st' \<and> focusedPlanet st' \<noteq> None \<and>
        backButton st' = None \<and> targetScale st' = 0.1 \<and> dispatch st' Back = Some st')"
proof -
  from frame_then_click [OF picked_ray_earth, of 800 600 None 2 0 id 400 300]
  obtain st where r: "run (script 800 600 None 2) [Frame 0 id, Click 400 300 ray_earth] = Some st"
    and "focusedPlanet st = Some 11"
    by (elim exE conjE) simp
  then have f: "focusedPlanet st \<noteq> None"
    by simp
  show ?thesis
    using r f no_back_element_focus_stays [OF r f, of "[Back, Frame 0 id, Back]"] by blast
qed

section \<open>What a frame does to the scene\<close>

lemma tick_nodes_rotations:
  "\<forall>p \<in> set built_planets.
     rotation_y (tick_nodes ts s (orbitGroup p)) = rotation_y (s (orbitGroup p)) + speed p * ts \<and>
     rotation_y (tick_nodes ts s (planet p)) = rotation_y (s (planet p)) + 0.01 \<and>
     (\<forall>m \<in> set (moons p). rotation_y (tick_nodes ts s (m_group m)) = rotation_y (s (m_group m)) + m_speed m)"
  unfolding tick_nodes_def tick_nodes_built by (simp add: rotate_y_def built_planets_def)

text \<open>
  Claim C2. A frame of a run returns, and for each planet it has advanced the orbit group's
  angle by the planet's speed times the time scale (the one this frame has just computed),
  the mesh's angle by 0.01, and each moon's orbit group by the moon's own speed, with no
  factor of the time scale and whether or not an object is focused.
\<close>

theorem tick_rotations:
  assumes "run (script W H bb dpr) es = Some st"
  shows "\<exists>st'. tick now ctl st = Some st' \<and>
     (\<forall>p \<in> set (planets st).
        rotation_y (nodes st' (orbitGroup p)) =
          rotation_y (nodes st (orbitGroup p)) + speed p * timeScale st' \<and>
        rotation_y (nodes st' (planet p)) = rotation_y (nodes st (planet p)) + 0.01 \<and>
        (\<forall>m \<in> set (moons p).
           rotation_y (nodes st' (m_group m)) = rotation_y (nodes st (m_group m)) + m_speed m))"
proof -
  have inv: "invar st"
    using run_script_invar(1) [OF assms] .
  from tick_fields [OF inv, of now ctl]
  obtain st' u where "tick now ctl st = Some st'" "st' = controls_update ctl u"
    "nodes u = tick_nodes (timeScale u) (nodes st)"
    by (elim exE conjE)
  then have "tick now ctl st = Some st'" "nodes st' = tick_nodes (timeScale st') (nodes st)"
    by (simp_all add: controls_update_def split: prod.splits)
  moreover have "planets st = built_planets"
    using inv by (simp add: invar_def)
  ultimately show ?thesis
    using tick_nodes_rotations [of "timeScale st'" "nodes st"] by simp
qed

theorem tick_rotations_witness:
  "run (script 800 600 None 2) [] = Some (script 800 600 None 2) \<and>
   (\<exists>st'. tick 0 id (script 800 600 None 2) = Some st' \<and> timeScale st' = 1 \<and>
      rotation_y (nodes st' 10) = 0.008 \<and> rotation_y (nodes st' 11) = 0.01 \<and>
      rotation_y (nodes st' 12) = 0.03 \<and> rotation_y (nodes st' 14) = 0.02)"
proof -
  have r: "run (script 800 600 None 2) [] = Some (script 800 600 None 2)"
    by simp
  from tick_rotations [OF r, of 0 id]
  obtain st' where 1: "tick 0 id (script 800 600 None 2) = Some st'"
    and 2: "\<forall>p \<in> set (planets (script 800 600 None 2)).
        rotation_y (nodes st' (orbitGroup p)) =
          rotation_y (nodes (script 800 600 None 2) (orbitGroup p)) + speed p * timeScale st' \<and>
        rotation_y (nodes st' (planet p)) = rotation_y (nodes (script 800 600 None 2) (planet p)) + 0.01 \<and>
        (\<forall>m \<in> set (moons p).
           rotation_y (nodes st' (m_group m)) =
             rotation_y (nodes (script 800 600 None 2) (m_group m)) + m_speed m)"
    by (elim exE conjE)
  from tick_invar [where st = "script 800 600 None 2" and now = 0 and ctl = id, OF invar_script]
  have 3: "timeScale st' = 1"
    using 1 by (auto simp add: script_fields targetScale_def lerp_def)
  show ?thesis
    using r 1 2 3 by (simp add: planets_script nodes_script built_planets_def built_at obj_def)
qed

text \<open>
  Claim C4. In a frame of a run with a focused object the rotations are advanced first and
  the target of the orbit controller is then set to the focused object's world position in
  the store as it is after this frame. It is still that position after \<^verbatim>\<open>controls.update()\<close>
  whenever the controller keeps the target it is given (the user is not panning).
\<close>

theorem focused_target_tracks:
  assumes "run (script W H bb dpr) es = Some st" and "focusedPlanet st = Some f"
  shows "\<exists>u. tick_update now st = Some u \<and> focusedPlanet u = Some f \<and>
     nodes u = fold (tick_planet (timeScale u)) (planets st)
                 (rotate_y (starDust st) (0.0001 * timeScale u) (nodes st)) \<and>
     getWorldPosition (count u) (nodes u) f = Some (controls_target u) \<and>
     tick now ctl st = Some (controls_update ctl u) \<and>
     (snd (ctl (camera_position u, controls_target u)) = controls_target u \<longrightarrow>
        getWorldPosition (count (controls_update ctl u)) (nodes (controls_update ctl u)) f =
          Some (controls_target (controls_update ctl u)))"
proof -
  have inv: "invar st"
    using run_script_invar(1) [OF assms(1)] .
  from tick_fields [OF inv, of now ctl]
  obtain st' u where u: "tick_update now st = Some u" "tick now ctl st = Some st'"
    "st' = controls_update ctl u" "nodes u = tick_nodes (timeScale u) (nodes st)"
    "focusedPlanet u = focusedPlanet st" "count u = count st"
    "case focusedPlanet st of None \<Rightarrow> controls_target u = controls_target st
      | Some f \<Rightarrow> getWorldPosition 20 (nodes u) f = Some (controls_target u)"
    by (elim exE conjE)
  have "count u = 20" "planets st = built_planets" "starDust st = 5"
    using inv u(6) by (simp_all add: invar_def)
  then show ?thesis
    using u assms(2) by (simp add: tick_nodes_def controls_update_def split: prod.splits)
qed

theorem focused_target_tracks_witness:
  "\<exists>st. run (script 800 600 None 2) [Frame 0 id, Click 400 300 ray_earth] = Some st \<and>
     focusedPlanet st = Some 11 \<and>
     (\<exists>u. tick_update 0 st = Some u \<and> focusedPlanet u = Some 11 \<and>
        getWorldPosition (count u) (nodes u) 11 = Some (controls_target u) \<and>
        tick 0 id st = Some (controls_update id u) \<and>
        snd (id (camera_position u, controls_target u)) = controls_target u \<and>
        getWorldPosition (count (controls_update id u)) (nodes (controls_update id u)) 11 =
          Some (controls_target (controls_update id u)))"
proof -
  from frame_then_click [OF picked_ray_earth, of 800 600 None 2 0 id 400 300]
  obtain st where r: "run (script 800 600 None 2) [Frame 0 id, Click 400 300 ray_earth] = Some st"
    and f: "focusedPlanet st = Some 11"
    by (elim exE conjE) simp
  from focused_target_tracks [OF r f, of 0 id]
  show ?thesis
    using r f by auto
qed

section \<open>The target of the time scale\<close>

text \<open>
  Claim C6 says that with a focused planet the time scale is smoothed toward 0. After the
  first frame and a click that focuses the Earth the time scale is 1; one frame later it is
  0.955, where smoothing toward 0 would give 0.95.
\<close>

theorem focused_target_is_not_zero:
  "map_option focusedPlanet (run (script 800 600 None 2) [Frame 0 id, Click 400 300 ray_earth])
     = Some (Some 11) \<and>
   map_option timeScale (run (script 800 600 None 2) [Frame 0 id, Click 400 300 ray_earth])
     = Some 1 \<and>
   map_option timeScale
     (run (script 800 600 None 2) [Frame 0 id, Click 400 300 ray_earth, Frame 16 id])
     = Some (191 / 200) \<and>
   lerp 1 0 0.05 \<noteq> 191 / 200"
proof -
  from frame_then_click [OF picked_ray_earth, of 800 600 None 2 0 id 400 300]
  obtain st0 st where st: "run (script 800 600 None 2) [Frame 0 id] = Some st0"
    "click_listener 400 300 ray_earth st0 = Some st"
    "run (script 800 600 None 2) [Frame 0 id, Click 400 300 ray_earth] = Some st"
    "focusedPlanet st = Some 11" "timeScale st = 1" "invar st"
    by (elim exE conjE) simp
  from tick_invar [OF st(6), of 16 id]
  obtain st' where st': "tick 16 id st = Some st'"
    "timeScale st' = lerp (timeScale st) (targetScale st) 0.05"
    by (elim exE conjE)
  have "timeScale st' = 191 / 200"
    using st'(2) st(4,5) by (simp add: targetScale_def lerp_def)
  moreover have "tick 0 id (script 800 600 None 2) = Some st0"
    using st(1) by (simp split: option.splits)
  ultimately show ?thesis
    using st st'(1) by (simp add: lerp_def)
qed

text \<open>
  Claim C6, amended. The target is 0.1 with a focused object and 1 without, and each frame
  of a run shrinks the distance between the time scale and the target by the factor 0.95.
\<close>

theorem timeScale_smoothed_toward_target:
  "\<exists>st. run (script W H bb dpr) es = Some st \<and>
     targetScale st = (if focusedPlanet st = None then 1.0 else 0.1) \<and>
     (\<exists>st'. tick now ctl st = Some st' \<and> targetScale st' = targetScale st \<and>
        timeScale st' - targetScale st' = 0.95 * (timeScale st - targetScale st))"
proof -
  from run_script [of W H bb dpr es]
  obtain st where st: "run (script W H bb dpr) es = Some st" "invar st"
    by (elim exE conjE)
  from tick_invar [OF st(2), of now ctl]
  obtain st' where st': "tick now ctl st = Some st'" "focusedPlanet st' = focusedPlanet st"
    "timeScale st' = lerp (timeScale st) (targetScale st) 0.05"
    by (elim exE conjE)
  have "targetScale st' = targetScale st"
    using st'(2) by (simp add: targetScale_def)
  moreover have "timeScale st' - targetScale st = 0.95 * (timeScale st - targetScale st)"
    using st'(3) by (simp add: lerp_def algebra_simps)
  moreover have "targetScale st = (if focusedPlanet st = None then 1.0 else 0.1)"
    by (simp add: targetScale_def)
  ultimately show ?thesis
    using st(1) st'(1) by auto
qed

section \<open>Clicks\<close>

text \<open>
  What holds of every click in a run: the cast returns, nearest intersection first, and
  every object it reports is a planet's mesh or a moon's mesh; a click whose ray meets none
  of them changes nothing but \<^verbatim>\<open>mouse\<close>; no click changes the scene graph; and so the
  focused object, if there is one, is always one of those seven meshes.
\<close>

lemma click_nothing_hit:
  assumes "intersectObjects (count st) (nodes st) ray (pickable st) True = Some []"
  shows "\<exists>st'. click_listener cx cy ray st = Some st' \<and> focusedPlanet st' = focusedPlanet st \<and>
     camera_position st' = camera_position st \<and> backButton st' = backButton st \<and>
     nodes st' = nodes st \<and> timeScale st' = timeScale st \<and>
     controls_target st' = controls_target st"
  using assms by (simp add: click_listener_def pickable_def)

lemma click_keeps_nodes:
  assumes "click_listener cx cy ray st = Some st'"
  shows "nodes st' = nodes st"
  using assms
  by (auto simp add: click_listener_def Let_def split: option.splits list.splits)

lemma pick_is_nearest:
  assumes "run (script W H bb dpr) es = Some st"
  shows "\<exists>is. intersectObjects (count st) (nodes st) ray (pickable st) True = Some is \<and>
     sorted (map distance is) \<and> object ` set is \<subseteq> planet_meshes \<union> moon_meshes"
proof -
  have inv: "invar st"
    using run_script_invar(1) [OF assms(1)] .
  then have "intersectObjects (count st) (nodes st) ray (pickable st) True = Some (picked ray)"
    by (simp add: pickable_def invar_def pick_shape)
  moreover have "sorted (map distance (picked ray))"
    by (simp add: picked_def)
  moreover have "object ` set (picked ray) \<subseteq> planet_meshes \<union> moon_meshes"
    using object_picked by blast
  ultimately show ?thesis by simp
qed

lemma selection_is_planet_or_moon:
  assumes "run (script W H bb dpr) es = Some st"
  shows "focusedPlanet st = None \<or> (\<exists>f \<in> planet_meshes \<union> moon_meshes. focusedPlanet st = Some f)"
  using run_script_invar(1) [OF assms] by (auto simp add: invar_def split: option.splits)

lemma click_sun_or_stars_keeps_selection:
  assumes "run (script W H bb dpr) es = Some st" and "\<forall>n \<in> planet_meshes \<union> moon_meshes. ray n = []"
  shows "\<exists>st'. click_listener cx cy ray st = Some st' \<and> focusedPlanet st' = focusedPlanet st"
proof -
  have "picked ray = []"
    using assms(2) by (simp add: picked_def hits_def planet_meshes_def moon_meshes_def)
  then show ?thesis
    using click_none [OF run_script_invar(1) [OF assms(1)]] by simp
qed

lemma earth_is_11:
  assumes "same_shape s built" "n \<in> planet_meshes \<union> moon_meshes" "userData (s n) = Some ''Earth''"
  shows "n = 11"
  using assms(2,3) shapeD(5) [OF assms(1), of n]
  by (auto simp add: planet_meshes_def moon_meshes_def built_at obj_sel)

text \<open>
  Claim C3 says that a click whose ray intersects the Earth's mesh selects the Earth. A ray
  that passes through Mercury at distance 2 and then through the Earth at distance 5
  intersects the Earth's mesh, and the click, after the first frame, selects Mercury.
\<close>

theorem click_through_mercury_selects_mercury:
  "Option.bind (run (script 800 600 (Some ''none'') 2) [Frame 0 id]) (picked_objects ray_mercury_earth)
     = Some [7, 11] \<and>
   Option.bind (run (script 800 600 (Some ''none'') 2) [Frame 0 id]) (name_of 11) = Some ''Earth'' \<and>
   Option.bind (run (script 800 600 (Some ''none'') 2) [Frame 0 id]) (name_of 7) = Some ''Mercury'' \<and>
   map_option focusedPlanet
     (run (script 800 600 (Some ''none'') 2) [Frame 0 id, Click 400 300 ray_mercury_earth])
     = Some (Some 7)"
proof -
  from frame_then_click [OF picked_ray_mercury_earth, of 800 600 "Some ''none''" 2 0 id 400 300]
  obtain st st' where "run (script 800 600 (Some ''none'') 2) [Frame 0 id] = Some st" "invar st"
    "run (script 800 600 (Some ''none'') 2) [Frame 0 id, Click 400 300 ray_mercury_earth] = Some st'"
    "focusedPlanet st' = Some 7"
    by (elim exE conjE) simp
  then show ?thesis
    by (simp add: picked_objects_invar name_of_invar picked_ray_mercury_earth built_at obj_sel
        del: run.simps)
qed

text \<open>
  Claim C3, amended. On a page with the back element, a click in a run whose nearest
  intersection is with the mesh tagged Earth selects that mesh, shows the back element and
  puts the camera at the Earth's world position (14 along x, turned by the angle of the
  Earth's orbit group) plus (5, 3, 5); the back listener then clears the selection, hides
  the element and puts the controller's target at the origin.
\<close>

theorem click_nearest_earth_then_back:
  assumes "run (script W H bb dpr) es = Some st" and "backButton st = Some d"
    and "intersectObjects (count st) (nodes st) ray (pickable st) True = Some (i # rest)"
    and "userData (nodes st (object i)) = Some ''Earth''"
  shows "\<exists>st' w. click_listener cx cy ray st = Some st' \<and> focusedPlanet st' = Some (object i) \<and>
     backButton st' = Some ''block'' \<and>
     getWorldPosition (count st) (nodes st) (object i) = Some w \<and>
     w = rotateY (rotation_y (nodes st 10)) (Vector3 14 0 0) \<and>
     camera_position st' = vadd w (Vector3 5 3 5) \<and>
     dispatch st' Back = Some (back_listener st') \<and>
     focusedPlanet (back_listener st') = None \<and>
     backButton (back_listener st') = Some ''none'' \<and>
     controls_target (back_listener st') = Vector3 0 0 0"
proof -
  have inv: "invar st"
    using run_script_invar(1) [OF assms(1)] .
  then have sh: "same_shape (nodes st) built" and c: "count st = 20"
    and ps: "planets st = built_planets" and r0: "rotation_y (nodes st 0) = 0"
    by (simp_all add: invar_def)
  have p: "picked ray = i # rest"
    using assms(3) unfolding pickable_def c ps pick_shape [OF sh] by simp
  then have "object i \<in> planet_meshes \<union> moon_meshes"
    using object_picked [of i ray] by simp
  then have e: "object i = 11"
    using earth_is_11 [OF sh _ assms(4)] by simp
  from click_hit_fields [OF inv p, of cx cy]
  obtain st' w where "click_listener cx cy ray st = Some st'" "focusedPlanet st' = Some (object i)"
    "backButton st' = (case backButton st of None \<Rightarrow> None | Some d \<Rightarrow> Some ''block'')"
    "getWorldPosition 20 (nodes st) (object i) = Some w"
    "camera_position st' = vadd w (Vector3 5 3 5)"
    by (elim exE conjE)
  then show ?thesis
    using assms(2) c e world_planet(2) [OF sh r0] by (simp add: back_listener_def)
qed

theorem click_nearest_earth_then_back_witness:
  "\<exists>st. run (script 800 600 (Some ''none'') 2) [Frame 0 id] = Some st \<and>
     backButton st = Some ''none'' \<and>
     intersectObjects (count st) (nodes st) ray_earth (pickable st) True
       = Some [\<lparr>distance = 5, object = 11\<rparr>] \<and>
     userData (nodes st 11) = Some ''Earth'' \<and>
     (\<exists>st'. click_listener 400 300 ray_earth st = Some st' \<and>
        focusedPlanet st' = Some 11 \<and> backButton st' = Some ''block'' \<and>
        camera_position st' =
          vadd (rotateY (rotation_y (nodes st 10)) (Vector3 14 0 0)) (Vector3 5 3 5) \<and>
        dispatch st' Back = Some (back_listener st') \<and>
        focusedPlanet (back_listener st') = None \<and>
        backButton (back_listener st') = Some ''none'' \<and>
        controls_target (back_listener st') = Vector3 0 0 0)"
proof -
  from first_frame [of 800 600 "Some ''none''" 2 0 id]
  obtain st where r: "run (script 800 600 (Some ''none'') 2) [Frame 0 id] = Some st"
    and inv: "invar st" and b: "backButton st = Some ''none''"
    by (elim exE conjE)
  have p: "intersectObjects (count st) (nodes st) ray_earth (pickable st) True
     = Some (\<lparr>distance = 5, object = 11\<rparr> # [])"
    using inv by (simp add: pickable_def invar_def pick_shape picked_ray_earth)
  have u: "userData (nodes st (object \<lparr>distance = 5, object = 11\<rparr>)) = Some ''Earth''"
    using name_of_invar [OF inv, of 11] by (simp add: name_of_def built_at obj_sel)
  from click_nearest_earth_then_back [OF r b p u, of 400 300]
  show ?thesis
    using r b p u by auto
qed

text \<open>
  Claim C5 says that the pick returns the nearest intersected planet mesh. The cast also
  tests what hangs below the planets' meshes: for a ray that meets the first moon of the
  Earth at distance 3 and the Earth behind it at distance 5, the click, after the first
  frame, selects the moon's mesh, which is none of the three meshes handed to the cast.
\<close>

theorem click_moon_before_earth_selects_moon:
  "map_option pickable (run (script 800 600 (Some ''none'') 2) [Frame 0 id]) = Some [7, 11, 17] \<and>
   Option.bind (run (script 800 600 (Some ''none'') 2) [Frame 0 id]) (picked_objects ray_moon_earth)
     = Some [13, 11] \<and>
   map_option focusedPlanet
     (run (script 800 600 (Some ''none'') 2) [Frame 0 id, Click 400 300 ray_moon_earth])
     = Some (Some 13)"
proof -
  from frame_then_click [OF picked_ray_moon_earth, of 800 600 "Some ''none''" 2 0 id 400 300]
  obtain st st' where "run (script 800 600 (Some ''none'') 2) [Frame 0 id] = Some st" "invar st"
    "run (script 800 600 (Some ''none'') 2) [Frame 0 id, Click 400 300 ray_moon_earth] = Some st'"
    "focusedPlanet st' = Some 13"
    by (elim exE conjE) simp
  then show ?thesis
    by (simp add: picked_objects_invar pickable_invar picked_ray_moon_earth del: run.simps)
qed

text \<open>
  Claim C10 says that a click whose ray hits only a moon never changes the selection. For
  a ray that meets nothing but the first moon of the Earth, the click after the first
  frame, when nothing is selected, selects the moon's mesh, which carries no planet's name
  and is none of the three meshes handed to the cast.
\<close>

theorem click_moon_only_selects_moon:
  "ray_moon 7 = [] \<and> ray_moon 11 = [] \<and> ray_moon 17 = [] \<and> ray_moon 13 = [3] \<and>
   map_option pickable (run (script 800 600 None 2) [Frame 0 id]) = Some [7, 11, 17] \<and>
   map_option focusedPlanet (run (script 800 600 None 2) [Frame 0 id]) = Some None \<and>
   Option.bind (run (script 800 600 None 2) [Frame 0 id]) (name_of 13) = None \<and>
   map_option focusedPlanet (run (script 800 600 None 2) [Frame 0 id, Click 400 300 ray_moon])
     = Some (Some 13)"
proof -
  from frame_then_click [OF picked_ray_moon, of 800 600 None 2 0 id 400 300]
  obtain st st' where "run (script 800 600 None 2) [Frame 0 id] = Some st" "invar st"
    "focusedPlanet st = None"
    "run (script 800 600 None 2) [Frame 0 id, Click 400 300 ray_moon] = Some st'"
    "focusedPlanet st' = Some 13"
    by (elim exE conjE) simp
  then show ?thesis
    by (simp add: name_of_invar pickable_invar built_at obj_sel ray_moon_def del: run.simps)
qed

section \<open>The shape of the scene graph\<close>

text \<open>
  Claim C7 says that each orbit group owns the planet's mesh and the moons' orbit groups.
  In the scene the script builds, the Earth's orbit group has one child, the Earth's mesh;
  the orbit groups of the Earth's two moons are children of that mesh.
\<close>

theorem moon_orbits_hang_on_the_mesh:
  "orbitGroup (planets (script 800 600 None 2) ! 1) = 10 \<and>
   planet (planets (script 800 600 None 2) ! 1) = 11 \<and>
   map m_group (moons (planets (script 800 600 None 2) ! 1)) = [12, 14] \<and>
   children (nodes (script 800 600 None 2) 10) = [11] \<and>
   parent (nodes (script 800 600 None 2) 12) = Some 11 \<and>
   parent (nodes (script 800 600 None 2) 14) = Some 11"
  by (simp add: planets_script nodes_script built_at obj_sel) (simp add: built_planets_def)

text \<open>
  Claim C7, amended. In every state of a run there are three planets with three different
  orbit groups, tagged Mercury, Earth and Jupiter. Each orbit group is a child of the scene
  and has one child, the planet's mesh; the children of the mesh are the orbit groups of the
  planet's moons; and each of those has one child, the moon's mesh, which has none.
\<close>

theorem scene_graph_shape:
  assumes "run (script W H bb dpr) es = Some st"
  shows "length (planets st) = 3 \<and> distinct (map orbitGroup (planets st)) \<and>
     map (\<lambda>p. userData (nodes st (planet p))) (planets st)
       = [Some ''Mercury'', Some ''Earth'', Some ''Jupiter''] \<and>
     (\<forall>p \<in> set (planets st).
        kind (nodes st (orbitGroup p)) = Group \<and>
        parent (nodes st (orbitGroup p)) = Some scene \<and>
        orbitGroup p \<in> set (children (nodes st scene)) \<and>
        children (nodes st (orbitGroup p)) = [planet p] \<and>
        kind (nodes st (planet p)) = Mesh \<and>
        parent (nodes st (planet p)) = Some (orbitGroup p) \<and>
        children (nodes st (planet p)) = map m_group (moons p) \<and>
        (\<forall>m \<in> set (moons p).
           kind (nodes st (m_group m)) = Group \<and>
           parent (nodes st (m_group m)) = Some (planet p) \<and>
           (\<exists>c. children (nodes st (m_group m)) = [c] \<and> kind (nodes st c) = Mesh \<and>
              parent (nodes st c) = Some (m_group m) \<and> children (nodes st c) = [])))"
proof -
  have inv: "invar st"
    using run_script_invar(1) [OF assms(1)] .
  then have sh: "same_shape (nodes st) built" and ps: "planets st = built_planets"
    by (simp_all add: invar_def)
  show ?thesis
    unfolding ps by (simp add: built_planets_def shapeD [OF sh] built_at obj_sel scene_def)
qed

theorem scene_graph_shape_witness:
  "run (script 800 600 None 2) [Frame 0 id] \<noteq> None \<and>
   (\<exists>st. run (script 800 600 None 2) [Frame 0 id] = Some st \<and>
      \<lparr>orbitGroup = 10, speed = 0.008, planet = 11,
         moons = [\<lparr>m_group = 12, m_speed = 0.03\<rparr>, \<lparr>m_group = 14, m_speed = 0.02\<rparr>]\<rparr>
        \<in> set (planets st) \<and>
      children (nodes st 10) = [11] \<and> children (nodes st 11) = [12, 14] \<and>
      parent (nodes st 12) = Some 11 \<and>
      (\<exists>c. children (nodes st 12) = [c] \<and> parent (nodes st c) = Some 12))"
proof -
  from run_script [of 800 600 None 2 "[Frame 0 id]"]
  obtain st where st: "run (script 800 600 None 2) [Frame 0 id] = Some st" "invar st"
    by (elim exE conjE)
  have ps: "planets st = built_planets"
    using st(2) by (simp add: invar_def)
  from scene_graph_shape [OF st(1)]
  have "\<forall>p \<in> set built_planets.
        children (nodes st (orbitGroup p)) = [planet p] \<and>
        children (nodes st (planet p)) = map m_group (moons p) \<and>
        (\<forall>m \<in> set (moons p).
           parent (nodes st (m_group m)) = Some (planet p) \<and>
           (\<exists>c. children (nodes st (m_group m)) = [c] \<and> parent (nodes st c) = Some (m_group m)))"
    unfolding ps by blast
  then show ?thesis
    using st(1) ps by (simp add: built_planets_def)
qed

end
